theory Spec2Isabelle
  imports Main "HOL-Library.Char_ord" "HOL-Library.List_Lexorder" "HOL-Library.Product_Lexorder"
begin

section \<open>The persistent store\<close>

text \<open>
  The relay server keeps five SQLite tables. Each table is a list of rows in rowid
  (insertion) order. Columns are named as in the \<^verbatim>\<open>CREATE TABLE\<close> statements, prefixed by
  the table so that the field names stay apart. The \<^verbatim>\<open>created_at\<close> columns are left
  out: no handler reads them. The \<^verbatim>\<open>timestamp\<close> column of \<^verbatim>\<open>messages\<close> is filled by
  \<^verbatim>\<open>CURRENT_TIMESTAMP\<close>, a text of fixed format with a resolution of one second, whose
  text order is the order of the seconds it denotes: it is a \<open>nat\<close> here.
\<close>

record user_row =
  u_id :: string
  u_username :: string
  u_password_hash :: string
  u_registration_id :: "int option"
  u_identity_key :: "string option"

record contact_row =
  c_id :: string
  c_user_id :: string
  c_contact_id :: string

record message_row =
  m_id :: string
  m_sender_id :: string
  m_recipient_id :: string
  m_encrypted_message :: string
  m_plain_text :: "string option"
  m_timestamp :: nat

record pre_key_row =
  pk_id :: string
  pk_user_id :: string
  pk_key_id :: int
  pk_public_key :: string

record signed_pre_key_row =
  spk_id :: string
  spk_user_id :: string
  spk_key_id :: int
  spk_public_key :: string
  spk_signature :: string

record database =
  users :: "user_row list"
  contacts :: "contact_row list"
  messages :: "message_row list"
  pre_keys :: "pre_key_row list"
  signed_pre_keys :: "signed_pre_key_row list"

datatype sqlite_error = SQLITE_CONSTRAINT | SQLITE_IOERR

section \<open>What the server takes from outside\<close>

text \<open>
  The libraries and the sources of nondeterminism are parameters of every handler:
  \<^verbatim>\<open>jwt.sign(., JWT_SECRET, {expiresIn: '7d'})\<close> and \<^verbatim>\<open>jwt.verify(., JWT_SECRET)\<close> at the
  moment of the call, \<^verbatim>\<open>bcrypt.hash(., 10)\<close> and \<^verbatim>\<open>bcrypt.compare\<close>,
  \<^verbatim>\<open>JSON.stringify\<close>, the text
  \<^verbatim>\<open>Math.random().toString(36).substr(2, 9) + Date.now()\<close>, the store's clock, the ISO
  text of \<^verbatim>\<open>new Date()\<close>, and whether the k-th statement the handler sends to the store
  comes back with an error that is not a constraint violation.
\<close>

datatype jwt_error = TokenExpiredError | JsonWebTokenError | NotBeforeError

text \<open>
  A value of a request body. \<open>truthy\<close> is what \<^verbatim>\<open>!v\<close> negates; an absent field
  (undefined) is \<open>None\<close> at the place where the field is read.
\<close>

datatype json =
  JNull
  | JBool bool
  | JNum int
  | JStr string
  | JArr "json list"
  | JObj "(string \<times> json) list"

fun truthy :: "json \<Rightarrow> bool" where
  "truthy JNull = False"
| "truthy (JBool b) = b"
| "truthy (JNum n) = (n \<noteq> 0)"
| "truthy (JStr s) = (s \<noteq> [])"
| "truthy (JArr xs) = True"
| "truthy (JObj kvs) = True"

record claims =
  claim_id :: string
  claim_username :: string

record env =
  jwt_sign :: "claims \<Rightarrow> string"
  jwt_verify :: "string \<Rightarrow> jwt_error + claims"
  bcrypt_hash :: "string \<Rightarrow> string"
  bcrypt_compare :: "string \<Rightarrow> string \<Rightarrow> bool"
  json_stringify :: "json \<Rightarrow> string"
  random_id :: string
  current_timestamp :: nat
  iso_now :: string
  db_err :: "nat \<Rightarrow> bool"

section \<open>Responses\<close>

record recipient_keys =
  registrationId :: "int option"
  identityKey :: "string option"
  preKeyId :: "int option"
  preKeyPublic :: "string option"
  signedPreKeyId :: "int option"
  signedPreKeyPublic :: "string option"
  signedPreKeySignature :: "string option"

text \<open>
  A response is the HTTP status with the JSON body; \<^verbatim>\<open>res.json\<close> without a status is 200.
  \<open>AuthBody message token id username\<close>, \<open>ContactBody message id username\<close>,
  \<open>KeysBody message recipientKeys\<close>, \<open>MessagesBody messages\<close>.
\<close>

datatype body =
  Message string
  | AuthBody string string string string
  | ContactBody string string string
  | KeysBody string recipient_keys
  | MessagesBody "message_row list"

type_synonym response = "nat \<times> body"

section \<open>Token check\<close>

text \<open>\<^verbatim>\<open>s.split(' ')\<close>: the pieces of \<open>s\<close> between single spaces.\<close>

fun split_on :: "char \<Rightarrow> string \<Rightarrow> string list" where
  "split_on c [] = [[]]"
| "split_on c (x # xs) =
     (if x = c then [] # split_on c xs
      else (case split_on c xs of [] \<Rightarrow> [[x]] | w # ws \<Rightarrow> (x # w) # ws))"

text \<open>
  \<^verbatim>\<open>authHeader && authHeader.split(' ')[1]\<close>: an absent header gives undefined (\<open>None\<close>),
  an empty header gives itself, and a header without a space has no second piece.
\<close>

definition header_token :: "string option \<Rightarrow> string option" where
  "header_token authHeader =
     (case authHeader of
        None \<Rightarrow> None
      | Some h \<Rightarrow>
          if h = [] then Some []
          else (case split_on CHR '' '' h of _ # t # _ \<Rightarrow> Some t | _ \<Rightarrow> None))"

text \<open>\<open>Inl\<close> is the response sent instead of calling \<^verbatim>\<open>next()\<close>; \<open>Inr\<close> is \<^verbatim>\<open>req.user\<close>.\<close>

definition authenticateToken :: "env \<Rightarrow> string option \<Rightarrow> response + claims" where
  "authenticateToken e authHeader =
     (case header_token authHeader of
        None \<Rightarrow> Inl (401, Message ''Access token required'')
      | Some token \<Rightarrow>
          if token = [] then Inl (401, Message ''Access token required'')
          else (case jwt_verify e token of
                  Inl err \<Rightarrow> Inl (403, Message ''Invalid token'')
                | Inr user \<Rightarrow> Inr user))"

section \<open>Registration and login\<close>

definition select_user_by_username :: "database \<Rightarrow> string \<Rightarrow> user_row option" where
  "select_user_by_username d n = find (\<lambda>u. u_username u = n) (users d)"

definition select_user_by_id :: "database \<Rightarrow> string \<Rightarrow> user_row option" where
  "select_user_by_id d i = find (\<lambda>u. u_id u = i) (users d)"

text \<open>
  An \<^verbatim>\<open>INSERT\<close> fails on the primary key, on a \<^verbatim>\<open>UNIQUE\<close> or \<^verbatim>\<open>NOT NULL\<close> column, or
  because the store is not available. SQLite does not enforce the foreign keys unless
  asked to, and the server never asks.
\<close>

definition insert_user :: "bool \<Rightarrow> database \<Rightarrow> user_row \<Rightarrow> sqlite_error + database" where
  "insert_user io_fail d r =
     (if io_fail then Inl SQLITE_IOERR
      else if u_id r \<in> set (map u_id (users d)) \<or> u_username r \<in> set (map u_username (users d))
      then Inl SQLITE_CONSTRAINT
      else Inr (d\<lparr>users := users d @ [r]\<rparr>))"

text \<open>
  \<^verbatim>\<open>POST /api/auth/register\<close>. The two body fields are strings when present;
  \<^verbatim>\<open>validator.isLength\<close> counts the characters of the string.
\<close>

definition register :: "env \<Rightarrow> database \<Rightarrow> string option \<Rightarrow> string option \<Rightarrow> response \<times> database" where
  "register e d username_in password_in =
     (case (username_in, password_in) of
        (Some un, Some pw) \<Rightarrow>
          if un = [] \<or> pw = [] then ((400, Message ''Username and password required''), d)
          else if \<not> (3 \<le> length un \<and> length un \<le> 30)
          then ((400, Message ''Username must be 3-30 characters''), d)
          else if \<not> 6 \<le> length pw
          then ((400, Message ''Password must be at least 6 characters''), d)
          else if db_err e 0 then ((500, Message ''Database error''), d)
          else (case select_user_by_username d un of
                  Some user \<Rightarrow> ((400, Message ''Username already exists''), d)
                | None \<Rightarrow>
                    (let passwordHash = bcrypt_hash e pw;
                         newId = ''user_'' @ random_id e
                     in case insert_user (db_err e 1) d
                               \<lparr>u_id = newId, u_username = un, u_password_hash = passwordHash,
                                u_registration_id = None, u_identity_key = None\<rparr> of
                          Inl err \<Rightarrow> ((500, Message ''Error creating user''), d)
                        | Inr d' \<Rightarrow>
                            ((200, AuthBody ''User created successfully''
                                     (jwt_sign e \<lparr>claim_id = newId, claim_username = un\<rparr>)
                                     newId un), d')))
      | _ \<Rightarrow> ((400, Message ''Username and password required''), d))"

text \<open>\<^verbatim>\<open>POST /api/auth/login\<close>.\<close>

definition login :: "env \<Rightarrow> database \<Rightarrow> string option \<Rightarrow> string option \<Rightarrow> response" where
  "login e d username_in password_in =
     (case (username_in, password_in) of
        (Some un, Some pw) \<Rightarrow>
          if un = [] \<or> pw = [] then (400, Message ''Username and password required'')
          else if db_err e 0 then (500, Message ''Database error'')
          else (case select_user_by_username d un of
                  None \<Rightarrow> (401, Message ''Invalid credentials'')
                | Some user \<Rightarrow>
                    if \<not> bcrypt_compare e pw (u_password_hash user)
                    then (401, Message ''Invalid credentials'')
                    else (200, AuthBody ''Login successful''
                                 (jwt_sign e \<lparr>claim_id = u_id user, claim_username = u_username user\<rparr>)
                                 (u_id user) (u_username user)))
      | _ \<Rightarrow> (400, Message ''Username and password required''))"

section \<open>Contacts\<close>

definition insert_contact :: "bool \<Rightarrow> database \<Rightarrow> contact_row \<Rightarrow> sqlite_error + database" where
  "insert_contact io_fail d r =
     (if io_fail then Inl SQLITE_IOERR
      else if c_id r \<in> set (map c_id (contacts d))
              \<or> (c_user_id r, c_contact_id r) \<in> set (map (\<lambda>c. (c_user_id c, c_contact_id c)) (contacts d))
      then Inl SQLITE_CONSTRAINT
      else Inr (d\<lparr>contacts := contacts d @ [r]\<rparr>))"

text \<open>\<^verbatim>\<open>POST /api/contacts/add\<close>, behind \<open>authenticateToken\<close>.\<close>

definition contacts_add :: "env \<Rightarrow> database \<Rightarrow> string option \<Rightarrow> string option \<Rightarrow> response \<times> database" where
  "contacts_add e d authHeader username_in =
     (case authenticateToken e authHeader of
        Inl r \<Rightarrow> (r, d)
      | Inr user \<Rightarrow>
          (case username_in of
             None \<Rightarrow> ((400, Message ''Username required''), d)
           | Some un \<Rightarrow>
               if un = [] then ((400, Message ''Username required''), d)
               else if db_err e 0 then ((500, Message ''Database error''), d)
               else (case select_user_by_username d un of
                       None \<Rightarrow> ((404, Message ''User not found''), d)
                     | Some contact \<Rightarrow>
                         if u_id contact = claim_id user
                         then ((400, Message ''Cannot add yourself as a contact''), d)
                         else (case insert_contact (db_err e 1) d
                                      \<lparr>c_id = ''contact_'' @ random_id e,
                                       c_user_id = claim_id user,
                                       c_contact_id = u_id contact\<rparr> of
                                 Inl err \<Rightarrow>
                                   if err = SQLITE_CONSTRAINT
                                   then ((400, Message ''Contact already exists''), d)
                                   else ((500, Message ''Error adding contact''), d)
                               | Inr d' \<Rightarrow>
                                   ((200, ContactBody ''Contact added successfully''
                                            (u_id contact) (u_username contact)), d')))))"

section \<open>Key exchange\<close>

text \<open>
  \<^verbatim>\<open>POST /api/keys/exchange\<close>, behind \<open>authenticateToken\<close>. The two \<^verbatim>\<open>LIMIT 1\<close> queries
  give the first row of the principal in table order, or no row; \<^verbatim>\<open>rows[0]?.column\<close> is
  undefined for no row. The route sends no statement that writes.
\<close>

definition keys_exchange :: "env \<Rightarrow> database \<Rightarrow> string option \<Rightarrow> string option \<Rightarrow> json option \<Rightarrow> response" where
  "keys_exchange e d authHeader contactId publicKeyBundle =
     (case authenticateToken e authHeader of
        Inl r \<Rightarrow> r
      | Inr user \<Rightarrow>
          (case (contactId, publicKeyBundle) of
             (Some cid, Some bundle) \<Rightarrow>
               if cid = [] \<or> \<not> truthy bundle
               then (400, Message ''Contact ID and public key bundle required'')
               else if db_err e 0 then (500, Message ''Database error'')
               else (case select_user_by_id d cid of
                       None \<Rightarrow> (404, Message ''Contact not found'')
                     | Some contact \<Rightarrow>
                         if db_err e 1 then (500, Message ''Database error'')
                         else if db_err e 2 then (500, Message ''Database error'')
                         else
                           (let preKeys = take 1 (filter (\<lambda>k. pk_user_id k = cid) (pre_keys d));
                                signedPreKeys =
                                  take 1 (filter (\<lambda>k. spk_user_id k = cid) (signed_pre_keys d))
                            in (200, KeysBody ''Key exchange successful''
                                  \<lparr>registrationId = u_registration_id contact,
                                   identityKey = u_identity_key contact,
                                   preKeyId = (case preKeys of [] \<Rightarrow> None | k # _ \<Rightarrow> Some (pk_key_id k)),
                                   preKeyPublic =
                                     (case preKeys of [] \<Rightarrow> None | k # _ \<Rightarrow> Some (pk_public_key k)),
                                   signedPreKeyId =
                                     (case signedPreKeys of [] \<Rightarrow> None | k # _ \<Rightarrow> Some (spk_key_id k)),
                                   signedPreKeyPublic =
                                     (case signedPreKeys of [] \<Rightarrow> None | k # _ \<Rightarrow> Some (spk_public_key k)),
                                   signedPreKeySignature =
                                     (case signedPreKeys of [] \<Rightarrow> None | k # _ \<Rightarrow> Some (spk_signature k))\<rparr>)))
           | _ \<Rightarrow> (400, Message ''Contact ID and public key bundle required'')))"

section \<open>Message history\<close>

text \<open>
  The query of \<^verbatim>\<open>GET /api/messages/:contactId\<close>: the rows of the pair in either
  direction, \<^verbatim>\<open>ORDER BY timestamp ASC\<close>. SQLite's sorter keeps rows of equal key in the
  order of the scan, which is the table order: a stable sort on the timestamp alone.
\<close>

definition select_messages :: "database \<Rightarrow> string \<Rightarrow> string \<Rightarrow> message_row list" where
  "select_messages d uid cid =
     sort_key m_timestamp
       (filter (\<lambda>m. (m_sender_id m = uid \<and> m_recipient_id m = cid)
                   \<or> (m_sender_id m = cid \<and> m_recipient_id m = uid))
          (messages d))"

definition get_messages :: "env \<Rightarrow> database \<Rightarrow> string option \<Rightarrow> string \<Rightarrow> response" where
  "get_messages e d authHeader contactId =
     (case authenticateToken e authHeader of
        Inl r \<Rightarrow> r
      | Inr user \<Rightarrow>
          if db_err e 0 then (500, Message ''Database error'')
          else (200, MessagesBody (select_messages d (claim_id user) contactId)))"

section \<open>Live connections\<close>

text \<open>
  A socket is the transport handle with the two fields the handshake middleware writes on
  it. \<open>connectedUsers\<close> is the module's \<^verbatim>\<open>Map\<close> from principal id to socket; the socket is
  stored by its handle.
\<close>

record socket =
  s_handle :: nat
  userId :: string
  username :: string

text \<open>\<^verbatim>\<open>io.use\<close>: \<open>Inl\<close> is the message of the \<^verbatim>\<open>Error\<close> given to \<^verbatim>\<open>next\<close>.\<close>

definition io_use :: "env \<Rightarrow> nat \<Rightarrow> string option \<Rightarrow> string + socket" where
  "io_use e h token =
     (case token of
        None \<Rightarrow> Inl ''Authentication error''
      | Some t \<Rightarrow>
          if t = [] then Inl ''Authentication error''
          else (case jwt_verify e t of
                  Inl err \<Rightarrow> Inl ''Authentication error''
                | Inr decoded \<Rightarrow>
                    Inr \<lparr>s_handle = h, userId = claim_id decoded,
                         username = claim_username decoded\<rparr>))"

record server =
  db :: database
  connectedUsers :: "string \<rightharpoonup> nat"

definition on_connection :: "server \<Rightarrow> socket \<Rightarrow> server" where
  "on_connection st sock =
     st\<lparr>connectedUsers := (connectedUsers st)(userId sock \<mapsto> s_handle sock)\<rparr>"

definition on_disconnect :: "server \<Rightarrow> socket \<Rightarrow> server" where
  "on_disconnect st sock =
     st\<lparr>connectedUsers := (connectedUsers st)(userId sock := None)\<rparr>"

definition empty_database :: database where
  "empty_database =
     \<lparr>users = [], contacts = [], messages = [], pre_keys = [], signed_pre_keys = []\<rparr>"

definition initial_server :: server where
  "initial_server = \<lparr>db = empty_database, connectedUsers = Map.empty\<rparr>"

section \<open>Message relay\<close>

record send_data =
  recipientId :: "string option"
  encryptedMessage :: "json option"
  plainText :: "string option"

record message_event =
  ev_id :: string
  ev_senderId :: string
  ev_encryptedMessage :: "json option"
  ev_timestamp :: string

text \<open>
  What a handler does to the outside, in program order: an \<^verbatim>\<open>INSERT\<close> into
  \<^verbatim>\<open>messages\<close> that has completed (with the id of the row), a \<^verbatim>\<open>message\<close> event
  emitted on the socket with the given handle, a line on the error console.
\<close>

datatype effect = DbInsert string | SocketEmit nat message_event | ConsoleError

text \<open>An undefined parameter is bound as \<^verbatim>\<open>NULL\<close>.\<close>

definition insert_message ::
  "bool \<Rightarrow> database \<Rightarrow> string \<Rightarrow> string \<Rightarrow> string option \<Rightarrow> string option \<Rightarrow> string option \<Rightarrow> nat
     \<Rightarrow> sqlite_error + database" where
  "insert_message io_fail d mid sender recipient enc plain ts =
     (if io_fail then Inl SQLITE_IOERR
      else (case (recipient, enc) of
              (Some r, Some c) \<Rightarrow>
                if mid \<in> set (map m_id (messages d)) then Inl SQLITE_CONSTRAINT
                else Inr (d\<lparr>messages := messages d @
                            [\<lparr>m_id = mid, m_sender_id = sender, m_recipient_id = r,
                              m_encrypted_message = c, m_plain_text = plain, m_timestamp = ts\<rparr>]\<rparr>)
            | _ \<Rightarrow> Inl SQLITE_CONSTRAINT))"

text \<open>
  \<^verbatim>\<open>socket.on('send_message')\<close>. The handler sends nothing back on its own socket; the
  registry is read in the callback of the \<^verbatim>\<open>INSERT\<close>.
\<close>

definition on_send_message :: "env \<Rightarrow> server \<Rightarrow> socket \<Rightarrow> send_data \<Rightarrow> server \<times> effect list" where
  "on_send_message e st sock data =
     (let messageId = ''msg_'' @ random_id e
      in case insert_message (db_err e 0) (db st) messageId (userId sock) (recipientId data)
                (map_option (json_stringify e) (encryptedMessage data)) (plainText data)
                (current_timestamp e) of
           Inl err \<Rightarrow> (st, [ConsoleError])
         | Inr d' \<Rightarrow>
             (st\<lparr>db := d'\<rparr>,
              DbInsert messageId #
                (case recipientId data of
                   None \<Rightarrow> []
                 | Some r \<Rightarrow>
                     (case connectedUsers st r of
                        None \<Rightarrow> []
                      | Some h \<Rightarrow>
                          [SocketEmit h
                             \<lparr>ev_id = messageId, ev_senderId = userId sock,
                              ev_encryptedMessage = encryptedMessage data,
                              ev_timestamp = iso_now e\<rparr>]))))"

section \<open>The HTTP surface as one step\<close>

datatype http_request =
  PostRegister "string option" "string option"
  | PostLogin "string option" "string option"
  | PostContactsAdd "string option" "string option"
  | PostKeysExchange "string option" "string option" "json option"
  | GetMessages "string option" string

text \<open>
  One request against the server: the response, the server afterwards and what was
  emitted on sockets. Only registration and adding a contact write; no route emits.
\<close>

fun http :: "env \<Rightarrow> server \<Rightarrow> http_request \<Rightarrow> response \<times> server \<times> effect list" where
  "http e st (PostRegister u p) =
     (case register e (db st) u p of (r, d') \<Rightarrow> (r, st\<lparr>db := d'\<rparr>, []))"
| "http e st (PostLogin u p) = (login e (db st) u p, st, [])"
| "http e st (PostContactsAdd h u) =
     (case contacts_add e (db st) h u of (r, d') \<Rightarrow> (r, st\<lparr>db := d'\<rparr>, []))"
| "http e st (PostKeysExchange h c b) = (keys_exchange e (db st) h c b, st, [])"
| "http e st (GetMessages h c) = (get_messages e (db st) h c, st, [])"

section \<open>Fixtures for the concrete runs\<close>

text \<open>
  A toy credential library: a token is the principal id, a colon, the handle; tokens
  starting with \<open>x\<close> are expired, anything else without a colon is forged. The digest of a
  secret is the secret behind a marker.
\<close>

definition toy_verify :: "string \<Rightarrow> jwt_error + claims" where
  "toy_verify t =
     (case split_on CHR '':'' t of
        [i, n] \<Rightarrow> if take 1 i = ''x'' then Inl TokenExpiredError
                  else Inr \<lparr>claim_id = i, claim_username = n\<rparr>
      | _ \<Rightarrow> Inl JsonWebTokenError)"

definition toy_env :: "string \<Rightarrow> nat \<Rightarrow> env" where
  "toy_env r t =
     \<lparr>jwt_sign = (\<lambda>c. claim_id c @ '':'' @ claim_username c),
      jwt_verify = toy_verify,
      bcrypt_hash = (\<lambda>s. ''$2a$10$'' @ s),
      bcrypt_compare = (\<lambda>s h. h = ''$2a$10$'' @ s),
      json_stringify = (\<lambda>j. case j of JStr x \<Rightarrow> x | _ \<Rightarrow> ''{}''),
      random_id = r,
      current_timestamp = t,
      iso_now = ''2024-01-01T00:00:00.000Z'',
      db_err = (\<lambda>k. False)\<rparr>"

text \<open>
  Bob with published key material and a live connection; the store after Bob's registration
  alone; Alice's row; three sockets, two of them Alice's; the headers of three callers.
\<close>

definition bob_row :: user_row where
  "bob_row =
     \<lparr>u_id = ''user_b1'', u_username = ''bobby'', u_password_hash = ''$2a$10$secret2'',
      u_registration_id = Some 12345, u_identity_key = Some ''bob-identity-key''\<rparr>"

definition published_store :: database where
  "published_store =
     \<lparr>users = [bob_row], contacts = [], messages = [],
      pre_keys = [\<lparr>pk_id = ''pk_1'', pk_user_id = ''user_b1'', pk_key_id = 7,
                   pk_public_key = ''bob-one-time-key''\<rparr>],
      signed_pre_keys = [\<lparr>spk_id = ''spk_1'', spk_user_id = ''user_b1'', spk_key_id = 1,
                          spk_public_key = ''bob-signed-key'', spk_signature = ''bob-signature''\<rparr>]\<rparr>"

definition published_server :: server where
  "published_server = \<lparr>db = published_store, connectedUsers = [''user_b1'' \<mapsto> 9]\<rparr>"

definition bob_bundle :: recipient_keys where
  "bob_bundle =
     \<lparr>registrationId = Some 12345, identityKey = Some ''bob-identity-key'',
      preKeyId = Some 7, preKeyPublic = Some ''bob-one-time-key'', signedPreKeyId = Some 1,
      signedPreKeyPublic = Some ''bob-signed-key'', signedPreKeySignature = Some ''bob-signature''\<rparr>"

definition no_keys :: recipient_keys where
  "no_keys =
     \<lparr>registrationId = None, identityKey = None, preKeyId = None, preKeyPublic = None,
      signedPreKeyId = None, signedPreKeyPublic = None, signedPreKeySignature = None\<rparr>"

definition registered_store :: database where
  "registered_store =
     snd (register (toy_env ''b1'' 0) empty_database (Some ''bobby'') (Some ''secret2''))"

definition alice_row :: user_row where
  "alice_row =
     \<lparr>u_id = ''user_a1'', u_username = ''alice'', u_password_hash = ''$2a$10$secret1'',
      u_registration_id = None, u_identity_key = None\<rparr>"

definition alice_store :: database where
  "alice_store = empty_database\<lparr>users := [alice_row]\<rparr>"

definition sockA1 :: socket where
  "sockA1 = \<lparr>s_handle = 1, userId = ''user_a1'', username = ''alice''\<rparr>"

definition sockA2 :: socket where
  "sockA2 = \<lparr>s_handle = 2, userId = ''user_a1'', username = ''alice''\<rparr>"

definition sockB :: socket where
  "sockB = \<lparr>s_handle = 3, userId = ''user_b1'', username = ''bobby''\<rparr>"

definition alice_header :: "string option" where
  "alice_header = Some ''Bearer user_a1:alice''"

definition bob_header :: "string option" where
  "bob_header = Some ''Bearer user_b1:bobby''"

definition carol_header :: "string option" where
  "carol_header = Some ''Bearer user_c1:carol''"

definition alice_claims :: claims where
  "alice_claims = \<lparr>claim_id = ''user_a1'', claim_username = ''alice''\<rparr>"

text \<open>
  Two messages of the same second, Alice to Bob and then Bob to Alice, whose generated ids
  are in the other order; and the server after the two \<^verbatim>\<open>send_message\<close> events.
\<close>

definition msg_first :: message_row where
  "msg_first =
     \<lparr>m_id = ''msg_z9x8c7v6b1700000005100'', m_sender_id = ''user_a1'',
      m_recipient_id = ''user_b1'', m_encrypted_message = ''c1'', m_plain_text = None,
      m_timestamp = 1700000005\<rparr>"

definition msg_second :: message_row where
  "msg_second =
     \<lparr>m_id = ''msg_a1b2c3d4e1700000005900'', m_sender_id = ''user_b1'',
      m_recipient_id = ''user_a1'', m_encrypted_message = ''c2'', m_plain_text = None,
      m_timestamp = 1700000005\<rparr>"

definition two_sends :: server where
  "two_sends =
     fst (on_send_message (toy_env ''a1b2c3d4e1700000005900'' 1700000005)
            (fst (on_send_message (toy_env ''z9x8c7v6b1700000005100'' 1700000005)
                    initial_server sockA1
                    \<lparr>recipientId = Some ''user_b1'', encryptedMessage = Some (JStr ''c1''),
                     plainText = None\<rparr>))
            sockB
            \<lparr>recipientId = Some ''user_a1'', encryptedMessage = Some (JStr ''c2''),
             plainText = None\<rparr>)"

section \<open>Facts about the fixtures and the store\<close>

lemma header_alice: "authenticateToken (toy_env r t) alice_header = Inr alice_claims"
  by (simp add: authenticateToken_def header_token_def toy_env_def toy_verify_def
      alice_header_def alice_claims_def)

lemma header_bob:
  "authenticateToken (toy_env r t) bob_header = Inr \<lparr>claim_id = ''user_b1'', claim_username = ''bobby''\<rparr>"
  by (simp add: authenticateToken_def header_token_def toy_env_def toy_verify_def bob_header_def)

lemma header_carol:
  "authenticateToken (toy_env r t) carol_header = Inr \<lparr>claim_id = ''user_c1'', claim_username = ''carol''\<rparr>"
  by (simp add: authenticateToken_def header_token_def toy_env_def toy_verify_def carol_header_def)

lemma toy_db_ok: "db_err (toy_env r t) k = False"
  by (simp add: toy_env_def)

lemma registered_store_eq:
  "registered_store =
     empty_database\<lparr>users := [\<lparr>u_id = ''user_b1'', u_username = ''bobby'',
        u_password_hash = ''$2a$10$secret2'', u_registration_id = None, u_identity_key = None\<rparr>]\<rparr>"
  by (simp add: registered_store_def register_def toy_env_def select_user_by_username_def
      insert_user_def empty_database_def Let_def)

lemma two_sends_db: "messages (db two_sends) = [msg_first, msg_second]"
  by (simp add: two_sends_def on_send_message_def insert_message_def toy_env_def initial_server_def
      empty_database_def sockA1_def sockB_def msg_first_def msg_second_def Let_def)

lemma authenticateToken_Inl:
  "authenticateToken e h = Inl r \<Longrightarrow> fst r = 401 \<or> fst r = 403"
  by (auto simp: authenticateToken_def split: option.splits if_splits sum.splits)

lemma find_by_id:
  "p \<in> set (map u_id us) \<Longrightarrow> \<exists>row. find (\<lambda>u. u_id u = p) us = Some row \<and> row \<in> set us \<and> u_id row = p"
  by (induction us) auto

lemma find_unique:
  "distinct (map f xs) \<Longrightarrow> x \<in> set xs \<Longrightarrow> find (\<lambda>y. f y = f x) xs = Some x"
  by (induction xs) (auto simp: image_iff)

lemma find_none: "(\<forall>k\<in>set xs. \<not> P k) \<Longrightarrow> find P xs = None"
  by (induction xs) auto

lemma find_append_new:
  "\<forall>x\<in>set xs. \<not> P x \<Longrightarrow> P y \<Longrightarrow> find P (xs @ [y]) = Some y"
  by (induction xs) auto

lemma first_row:
  "(case take (Suc 0) (filter P xs) of [] \<Rightarrow> None | k # _ \<Rightarrow> Some (f k)) = map_option f (find P xs)"
  by (induction xs) auto

text \<open>What the key exchange answers when the caller is authenticated and the principal exists.\<close>

lemma keys_exchange_found:
  assumes "authenticateToken e hdr = Inr a" and "p \<noteq> []" and "truthy bundle"
    and "\<not> db_err e 0" and "\<not> db_err e 1" and "\<not> db_err e 2"
    and "select_user_by_id d p = Some row"
  shows "keys_exchange e d hdr (Some p) (Some bundle) =
     (200, KeysBody ''Key exchange successful''
        \<lparr>registrationId = u_registration_id row,
         identityKey = u_identity_key row,
         preKeyId = map_option pk_key_id (find (\<lambda>k. pk_user_id k = p) (pre_keys d)),
         preKeyPublic = map_option pk_public_key (find (\<lambda>k. pk_user_id k = p) (pre_keys d)),
         signedPreKeyId = map_option spk_key_id (find (\<lambda>k. spk_user_id k = p) (signed_pre_keys d)),
         signedPreKeyPublic = map_option spk_public_key (find (\<lambda>k. spk_user_id k = p) (signed_pre_keys d)),
         signedPreKeySignature = map_option spk_signature (find (\<lambda>k. spk_user_id k = p) (signed_pre_keys d))\<rparr>)"
  using assms by (simp add: keys_exchange_def Let_def first_row)

lemma keys_exchange_200:
  assumes "keys_exchange e d hdr (Some p) b = (200, KeysBody m k)"
  shows "preKeyId k = map_option pk_key_id (find (\<lambda>x. pk_user_id x = p) (pre_keys d))
       \<and> preKeyPublic k = map_option pk_public_key (find (\<lambda>x. pk_user_id x = p) (pre_keys d))"
  using assms
  by (auto simp: keys_exchange_def Let_def first_row dest: authenticateToken_Inl
      split: sum.splits option.splits if_splits)

lemma published_exchange:
  "truthy b \<Longrightarrow>
   keys_exchange (toy_env r t) published_store alice_header (Some ''user_b1'') (Some b)
     = (200, KeysBody ''Key exchange successful'' bob_bundle)"
  by (simp add: keys_exchange_def header_alice toy_db_ok select_user_by_id_def
      published_store_def bob_row_def bob_bundle_def)

lemma published_exchange_carol:
  "truthy b \<Longrightarrow>
   keys_exchange (toy_env r t) published_store carol_header (Some ''user_b1'') (Some b)
     = (200, KeysBody ''Key exchange successful'' bob_bundle)"
  by (simp add: keys_exchange_def header_carol toy_db_ok select_user_by_id_def
      published_store_def bob_row_def bob_bundle_def)

lemma select_messages_sym: "select_messages d a b = select_messages d b a"
  unfolding select_messages_def
  by (rule arg_cong [where f = "sort_key m_timestamp"], rule filter_cong) auto

lemma insert_message_Inr:
  "insert_message f d mid sender recipient enc plain ts = Inr d' \<Longrightarrow>
     \<exists>m\<in>set (messages d'). m_id m = mid \<and> m_sender_id m = sender"
  by (auto simp: insert_message_def split: if_splits option.splits)

lemma insert_message_fails:
  "f \<or> recipient = None \<or> enc = None \<or> mid \<in> set (map m_id (messages d)) \<Longrightarrow>
     \<exists>err. insert_message f d mid sender recipient enc plain ts = Inl err"
  by (cases recipient; cases enc) (auto simp: insert_message_def)

section \<open>Token check: expired and forged tokens\<close>

text \<open>
  Claim C9. A token that the verifier rejects as expired and a token that it rejects for
  its signature get the same answer, on the HTTP routes (status 403 with the message
  "Invalid token") and at the socket handshake (the error "Authentication error"): the
  kind of the verifier's error never reaches the caller.
\<close>

theorem expired_forged_same_response:
  assumes "header_token h1 = Some t1" and "t1 \<noteq> []"
    and "jwt_verify e1 t1 = Inl TokenExpiredError"
    and "header_token h2 = Some t2" and "t2 \<noteq> []"
    and "jwt_verify e2 t2 = Inl JsonWebTokenError"
  shows "authenticateToken e1 h1 = Inl (403, Message ''Invalid token'')
       \<and> authenticateToken e2 h2 = authenticateToken e1 h1
       \<and> io_use e1 n1 (Some t1) = Inl ''Authentication error''
       \<and> io_use e2 n2 (Some t2) = io_use e1 n1 (Some t1)"
  using assms by (simp add: authenticateToken_def io_use_def)

theorem expired_forged_same_response_witness:
  "authenticateToken (toy_env ''r'' 0) (Some ''Bearer x1:alice'') = Inl (403, Message ''Invalid token'')
 \<and> authenticateToken (toy_env ''r'' 0) (Some ''Bearer garbage'')
     = authenticateToken (toy_env ''r'' 0) (Some ''Bearer x1:alice'')
 \<and> io_use (toy_env ''r'' 0) 1 (Some ''x1:alice'') = Inl ''Authentication error''
 \<and> io_use (toy_env ''r'' 0) 2 (Some ''garbage'') = io_use (toy_env ''r'' 0) 1 (Some ''x1:alice'')"
proof -
  have a: "header_token (Some ''Bearer x1:alice'') = Some ''x1:alice''"
    by (simp add: header_token_def)
  have b: "header_token (Some ''Bearer garbage'') = Some ''garbage''"
    by (simp add: header_token_def)
  have c: "jwt_verify (toy_env ''r'' 0) ''x1:alice'' = Inl TokenExpiredError"
    by (simp add: toy_env_def toy_verify_def)
  have d: "jwt_verify (toy_env ''r'' 0) ''garbage'' = Inl JsonWebTokenError"
    by (simp add: toy_env_def toy_verify_def)
  show ?thesis
    using expired_forged_same_response [OF a _ c b _ d, of 1 2] by simp
qed


section \<open>Key exchange: one-time keys are not consumed\<close>

text \<open>
  Claim C1, as the code has it. The key exchange never writes: two successful exchanges for
  the same principal, the second on the server the first one left, leave the server as it
  was and return the same one-time pre-key, the first row of the principal in
  \<^verbatim>\<open>pre_keys\<close>. No key is marked as consumed.
\<close>

theorem exchange_does_not_consume:
  assumes "http e1 st (PostKeysExchange h1 (Some p) b1) = ((200, KeysBody m1 k1), st1, fx1)"
    and "http e2 st1 (PostKeysExchange h2 (Some p) b2) = ((200, KeysBody m2 k2), st2, fx2)"
  shows "st1 = st \<and> st2 = st
       \<and> preKeyId k2 = preKeyId k1 \<and> preKeyPublic k2 = preKeyPublic k1
       \<and> preKeyId k1 = map_option pk_key_id (find (\<lambda>x. pk_user_id x = p) (pre_keys (db st)))"
proof -
  from assms(1) have s1: "st1 = st"
    and r1: "keys_exchange e1 (db st) h1 (Some p) b1 = (200, KeysBody m1 k1)"
    by auto
  from assms(2) s1 have s2: "st2 = st"
    and r2: "keys_exchange e2 (db st) h2 (Some p) b2 = (200, KeysBody m2 k2)"
    by auto
  show ?thesis
    using s1 s2 keys_exchange_200 [OF r1] keys_exchange_200 [OF r2] by simp
qed

theorem exchange_does_not_consume_witness:
  "http (toy_env ''r1'' 10) published_server
      (PostKeysExchange alice_header (Some ''user_b1'') (Some (JObj [])))
     = ((200, KeysBody ''Key exchange successful'' bob_bundle), published_server, [])
   \<and> http (toy_env ''r2'' 20) published_server
      (PostKeysExchange carol_header (Some ''user_b1'') (Some (JObj [])))
     = ((200, KeysBody ''Key exchange successful'' bob_bundle), published_server, [])
   \<and> preKeyId bob_bundle = map_option pk_key_id
        (find (\<lambda>x. pk_user_id x = ''user_b1'') (pre_keys (db published_server)))"
proof -
  have 1: "http (toy_env ''r1'' 10) published_server
      (PostKeysExchange alice_header (Some ''user_b1'') (Some (JObj [])))
     = ((200, KeysBody ''Key exchange successful'' bob_bundle), published_server, [])"
    by (simp add: published_exchange published_server_def)
  have 2: "http (toy_env ''r2'' 20) published_server
      (PostKeysExchange carol_header (Some ''user_b1'') (Some (JObj [])))
     = ((200, KeysBody ''Key exchange successful'' bob_bundle), published_server, [])"
    by (simp add: published_exchange_carol published_server_def)
  from exchange_does_not_consume [OF 1 2] 1 2 show ?thesis
    by blast
qed

text \<open>
  Claim C1 as stated fails. Bob has published one one-time pre-key, with key id 7. Alice's
  exchange returns it, and Carol's exchange after that returns the same key.
\<close>

theorem one_time_key_twice_counterexample:
  "fst (http (toy_env ''r1'' 10) published_server
          (PostKeysExchange alice_header (Some ''user_b1'') (Some (JObj []))))
     = (200, KeysBody ''Key exchange successful'' bob_bundle)
   \<and> fst (http (toy_env ''r2'' 20)
          (fst (snd (http (toy_env ''r1'' 10) published_server
                       (PostKeysExchange alice_header (Some ''user_b1'') (Some (JObj []))))))
          (PostKeysExchange carol_header (Some ''user_b1'') (Some (JObj []))))
     = (200, KeysBody ''Key exchange successful'' bob_bundle)
   \<and> preKeyId bob_bundle = Some 7
   \<and> preKeyPublic bob_bundle = Some ''bob-one-time-key''"
  by (simp add: published_exchange published_exchange_carol published_server_def bob_bundle_def)

section \<open>Key exchange: the initiator's bundle\<close>

text \<open>
  Claim C2, as the code has it. The submitted bundle is only tested for truthiness. For an
  authenticated caller an absent or falsy bundle is answered 400 "Contact ID and public key
  bundle required". Two exchanges that differ in nothing but the (truthy) bundle have the
  same response, and every exchange leaves the server as it was and emits nothing on any
  socket. The payload is neither stored nor forwarded.
\<close>

theorem exchange_ignores_bundle:
  "(truthy b1 \<and> truthy b2 \<longrightarrow>
      http e st (PostKeysExchange h c (Some b1)) = http e st (PostKeysExchange h c (Some b2)))
   \<and> snd (http e st (PostKeysExchange h c b)) = (st, [])
   \<and> (authenticateToken e h = Inr a \<and> (b = None \<or> (\<exists>j. b = Some j \<and> \<not> truthy j)) \<longrightarrow>
        fst (http e st (PostKeysExchange h c b))
          = (400, Message ''Contact ID and public key bundle required''))"
  by (auto simp: keys_exchange_def split: sum.splits option.splits)

theorem exchange_ignores_bundle_witness:
  "http (toy_env ''r1'' 10) published_server
     (PostKeysExchange alice_header (Some ''user_b1'') (Some (JStr ''alice-bundle'')))
   = http (toy_env ''r1'' 10) published_server
     (PostKeysExchange alice_header (Some ''user_b1'') (Some (JNum 1)))
   \<and> http (toy_env ''r1'' 10) published_server
        (PostKeysExchange alice_header (Some ''user_b1'') (Some (JStr '''')))
      = ((400, Message ''Contact ID and public key bundle required''), published_server, [])
   \<and> http (toy_env ''r1'' 10) published_server
        (PostKeysExchange alice_header (Some ''user_b1'') None)
      = ((400, Message ''Contact ID and public key bundle required''), published_server, [])"
proof -
  let ?e = "toy_env ''r1'' 10"
  have t: "truthy (JStr ''alice-bundle'') \<and> truthy (JNum 1)"
    by simp
  have f: "authenticateToken ?e alice_header = Inr alice_claims
      \<and> (Some (JStr '''') = None \<or> (\<exists>j. Some (JStr '''') = Some j \<and> \<not> truthy j))"
    by (simp add: header_alice)
  have g: "authenticateToken ?e alice_header = Inr alice_claims
      \<and> ((None :: json option) = None \<or> (\<exists>j. (None :: json option) = Some j \<and> \<not> truthy j))"
    by (simp add: header_alice)
  from exchange_ignores_bundle [of "JStr ''alice-bundle''" "JNum 1" ?e published_server alice_header
      "Some ''user_b1''" "Some (JStr '''')" alice_claims] t f
  have 1: "http ?e published_server (PostKeysExchange alice_header (Some ''user_b1'') (Some (JStr ''alice-bundle'')))
        = http ?e published_server (PostKeysExchange alice_header (Some ''user_b1'') (Some (JNum 1)))"
    and 2: "snd (http ?e published_server (PostKeysExchange alice_header (Some ''user_b1'') (Some (JStr ''''))))
        = (published_server, [])"
    and 3: "fst (http ?e published_server (PostKeysExchange alice_header (Some ''user_b1'') (Some (JStr ''''))))
        = (400, Message ''Contact ID and public key bundle required'')"
    by blast+
  from exchange_ignores_bundle [of "JStr ''alice-bundle''" "JNum 1" ?e published_server alice_header
      "Some ''user_b1''" None alice_claims] g
  have 4: "snd (http ?e published_server (PostKeysExchange alice_header (Some ''user_b1'') None))
        = (published_server, [])"
    and 5: "fst (http ?e published_server (PostKeysExchange alice_header (Some ''user_b1'') None))
        = (400, Message ''Contact ID and public key bundle required'')"
    by blast+
  from 1 2 3 4 5 show ?thesis
    by (metis prod.collapse)
qed

text \<open>
  Claim C2 as stated fails. Bob is connected (handle 9). Alice's exchange with her identity
  key in the bundle returns Bob's keys, leaves the store and the registry untouched and
  emits nothing; so does the exchange with another identity key in the bundle. Nothing that
  Bob can ever read depends on what Alice submitted.
\<close>

theorem bundle_not_relayed_counterexample:
  "http (toy_env ''r1'' 10) published_server
       (PostKeysExchange alice_header (Some ''user_b1'')
          (Some (JObj [(''identityKey'', JStr ''alice-identity-key'')])))
     = ((200, KeysBody ''Key exchange successful'' bob_bundle), published_server, [])
   \<and> http (toy_env ''r1'' 10) published_server
       (PostKeysExchange alice_header (Some ''user_b1'')
          (Some (JObj [(''identityKey'', JStr ''another-identity-key'')])))
     = ((200, KeysBody ''Key exchange successful'' bob_bundle), published_server, [])
   \<and> connectedUsers published_server ''user_b1'' = Some 9"
  by (simp add: published_exchange published_server_def)

section \<open>Key exchange: a principal without a signed pre-key\<close>

text \<open>
  Claim C3, as the code has it. For an authenticated caller, a truthy bundle and an
  available store, the exchange for an existing principal answers 200 whatever the
  principal has published: without a signed pre-key the three signed-pre-key fields are
  undefined, without a one-time pre-key the two one-time fields are undefined. Only an
  unknown principal id is answered 404.
\<close>

theorem exchange_without_signed_pre_key:
  assumes "authenticateToken e hdr = Inr a" and "p \<in> set (map u_id (users d))" and "p \<noteq> []"
    and "truthy bundle" and "\<not> db_err e 0" and "\<not> db_err e 1" and "\<not> db_err e 2"
  shows "\<exists>keys. keys_exchange e d hdr (Some p) (Some bundle)
                  = (200, KeysBody ''Key exchange successful'' keys)
      \<and> ((\<forall>k\<in>set (signed_pre_keys d). spk_user_id k \<noteq> p) \<longrightarrow>
           signedPreKeyId keys = None \<and> signedPreKeyPublic keys = None
           \<and> signedPreKeySignature keys = None)
      \<and> ((\<forall>k\<in>set (pre_keys d). pk_user_id k \<noteq> p) \<longrightarrow>
           preKeyId keys = None \<and> preKeyPublic keys = None)"
proof -
  from assms(2) obtain row where row: "select_user_by_id d p = Some row"
    using find_by_id [of p "users d"] by (auto simp: select_user_by_id_def)
  show ?thesis
    using keys_exchange_found [OF assms(1) assms(3) assms(4) assms(5) assms(6) assms(7) row]
    by (auto simp: find_none)
qed

theorem exchange_without_signed_pre_key_witness:
  "\<exists>keys. keys_exchange (toy_env ''r'' 5) registered_store alice_header (Some ''user_b1'')
            (Some (JObj []))
       = (200, KeysBody ''Key exchange successful'' keys)
     \<and> signedPreKeyId keys = None \<and> preKeyId keys = None"
proof -
  have p: "''user_b1'' \<in> set (map u_id (users registered_store))"
    by (simp add: registered_store_eq)
  have s: "\<forall>k\<in>set (signed_pre_keys registered_store). spk_user_id k \<noteq> ''user_b1''"
    by (simp add: registered_store_eq empty_database_def)
  have k: "\<forall>k\<in>set (pre_keys registered_store). pk_user_id k \<noteq> ''user_b1''"
    by (simp add: registered_store_eq empty_database_def)
  have t: "truthy (JObj [])" and n: "''user_b1'' \<noteq> []"
    by simp_all
  have o: "\<not> db_err (toy_env ''r'' 5) 0" "\<not> db_err (toy_env ''r'' 5) 1"
    "\<not> db_err (toy_env ''r'' 5) 2"
    by (simp_all add: toy_db_ok)
  from exchange_without_signed_pre_key [OF header_alice p n t o] s k
  show ?thesis by blast
qed

text \<open>
  Claim C3 as stated fails. Bob registers on the empty store and publishes nothing. He
  exists, he has no signed pre-key, and Alice's exchange for him is answered 200 with every
  key field undefined, not 404.
\<close>

theorem no_signed_pre_key_counterexample:
  "fst (register (toy_env ''b1'' 0) empty_database (Some ''bobby'') (Some ''secret2''))
      = (200, AuthBody ''User created successfully'' ''user_b1:bobby'' ''user_b1'' ''bobby'')
   \<and> map_option u_id (select_user_by_id registered_store ''user_b1'') = Some ''user_b1''
   \<and> signed_pre_keys registered_store = []
   \<and> keys_exchange (toy_env ''r'' 5) registered_store alice_header (Some ''user_b1'')
        (Some (JObj []))
      = (200, KeysBody ''Key exchange successful'' no_keys)"
  by (simp add: registered_store_eq keys_exchange_def header_alice toy_db_ok select_user_by_id_def
        no_keys_def empty_database_def)
     (simp add: register_def toy_env_def select_user_by_username_def insert_user_def
        empty_database_def Let_def)

section \<open>Key exchange: no contact edge is needed\<close>



section \<open>Contacts: adding oneself\<close>

text \<open>
  Claim C4, as the code has it. The handle is resolved first and compared second. With the
  handles of the store distinct (the column is \<^verbatim>\<open>UNIQUE\<close>), an authenticated caller, a
  non-empty handle and the store available: when the store has the caller's own row under
  the handle, adding it is answered 400 "Cannot add yourself as a contact" and the store is
  unchanged; when no row has the handle, the answer is 404 "User not found".
\<close>

theorem add_self_after_lookup:
  assumes "authenticateToken e hdr = Inr a" and "h \<noteq> []" and "\<not> db_err e 0"
    and "distinct (map u_username (users d))"
  shows "((\<exists>row\<in>set (users d). u_id row = claim_id a \<and> u_username row = h) \<longrightarrow>
            contacts_add e d hdr (Some h) = ((400, Message ''Cannot add yourself as a contact''), d))
       \<and> (h \<notin> set (map u_username (users d)) \<longrightarrow>
            contacts_add e d hdr (Some h) = ((404, Message ''User not found''), d))"
proof (intro conjI impI)
  assume "\<exists>row\<in>set (users d). u_id row = claim_id a \<and> u_username row = h"
  then obtain row where row: "row \<in> set (users d)" "u_id row = claim_id a" "u_username row = h"
    by blast
  from find_unique [OF assms(4) row(1)] row(3)
  have "select_user_by_username d h = Some row"
    by (simp add: select_user_by_username_def)
  with assms row(2)
  show "contacts_add e d hdr (Some h) = ((400, Message ''Cannot add yourself as a contact''), d)"
    by (simp add: contacts_add_def)
next
  assume "h \<notin> set (map u_username (users d))"
  then have "select_user_by_username d h = None"
    by (auto simp: select_user_by_username_def find_None_iff)
  with assms show "contacts_add e d hdr (Some h) = ((404, Message ''User not found''), d)"
    by (simp add: contacts_add_def)
qed

theorem add_self_after_lookup_witness:
  "contacts_add (toy_env ''r'' 5) alice_store alice_header (Some ''alice'')
      = ((400, Message ''Cannot add yourself as a contact''), alice_store)
   \<and> contacts_add (toy_env ''r'' 5) alice_store alice_header (Some ''bobby'')
      = ((404, Message ''User not found''), alice_store)"
proof -
  have d: "distinct (map u_username (users alice_store))"
    by (simp add: alice_store_def)
  have o: "\<not> db_err (toy_env ''r'' 5) 0"
    by (simp add: toy_db_ok)
  have n: "''alice'' \<noteq> []" "''bobby'' \<noteq> []"
    by simp_all
  have 1: "\<exists>row\<in>set (users alice_store). u_id row = claim_id alice_claims \<and> u_username row = ''alice''"
    by (simp add: alice_store_def alice_row_def alice_claims_def)
  have 2: "''bobby'' \<notin> set (map u_username (users alice_store))"
    by (simp add: alice_store_def alice_row_def)
  from add_self_after_lookup [OF header_alice n(1) o d] 1
       add_self_after_lookup [OF header_alice n(2) o d] 2
  show ?thesis by blast
qed

text \<open>
  Claim C4 as stated fails. Alice holds a valid token for the handle "alice" and the store
  has no row for her. Adding "alice" is answered 404 "User not found", not 400.
\<close>

theorem add_self_not_found_counterexample:
  "authenticateToken (toy_env ''r'' 5) alice_header = Inr alice_claims
   \<and> claim_username alice_claims = ''alice''
   \<and> contacts_add (toy_env ''r'' 5) empty_database alice_header (Some ''alice'')
       = ((404, Message ''User not found''), empty_database)"
  by (simp add: contacts_add_def header_alice toy_db_ok select_user_by_username_def
      empty_database_def alice_claims_def)

section \<open>History: both directions, by timestamp\<close>

text \<open>
  Claim C5, as the code has it. For two authenticated principals and the store available,
  the history that A asks for with B and the history that B asks for with A are the same
  list. It holds exactly the stored messages of the pair in either direction, it is sorted
  ascending by timestamp, and messages of equal timestamp keep their order in the store,
  which is the order of insertion; the id is not part of the order.
\<close>

theorem history_both_directions_by_timestamp:
  assumes "authenticateToken e1 h1 = Inr ua" and "authenticateToken e2 h2 = Inr ub"
    and "\<not> db_err e1 0" and "\<not> db_err e2 0"
  shows "\<exists>ms. get_messages e1 d h1 (claim_id ub) = (200, MessagesBody ms)
            \<and> get_messages e2 d h2 (claim_id ua) = (200, MessagesBody ms)
            \<and> set ms = {m \<in> set (messages d).
                          (m_sender_id m = claim_id ua \<and> m_recipient_id m = claim_id ub)
                        \<or> (m_sender_id m = claim_id ub \<and> m_recipient_id m = claim_id ua)}
            \<and> sorted (map m_timestamp ms)
            \<and> (\<forall>t. filter (\<lambda>m. m_timestamp m = t) ms =
                     filter (\<lambda>m. m_timestamp m = t)
                       (filter (\<lambda>m. (m_sender_id m = claim_id ua \<and> m_recipient_id m = claim_id ub)
                                   \<or> (m_sender_id m = claim_id ub \<and> m_recipient_id m = claim_id ua))
                          (messages d)))"
proof -
  let ?ms = "select_messages d (claim_id ua) (claim_id ub)"
  have 1: "get_messages e1 d h1 (claim_id ub) = (200, MessagesBody ?ms)"
    using assms by (simp add: get_messages_def)
  have 2: "get_messages e2 d h2 (claim_id ua) = (200, MessagesBody ?ms)"
    using assms by (simp add: get_messages_def select_messages_sym [of d "claim_id ub"])
  have 3: "set ?ms = {m \<in> set (messages d).
                          (m_sender_id m = claim_id ua \<and> m_recipient_id m = claim_id ub)
                        \<or> (m_sender_id m = claim_id ub \<and> m_recipient_id m = claim_id ua)}"
    by (simp add: select_messages_def)
  have 4: "sorted (map m_timestamp ?ms)"
    by (simp add: select_messages_def)
  have 5: "\<forall>t. filter (\<lambda>m. m_timestamp m = t) ?ms =
                     filter (\<lambda>m. m_timestamp m = t)
                       (filter (\<lambda>m. (m_sender_id m = claim_id ua \<and> m_recipient_id m = claim_id ub)
                                   \<or> (m_sender_id m = claim_id ub \<and> m_recipient_id m = claim_id ua))
                          (messages d))"
    unfolding select_messages_def by (intro allI sort_key_stable)
  from 1 2 3 4 5 show ?thesis by blast
qed

theorem history_both_directions_by_timestamp_witness:
  "get_messages (toy_env ''r'' 9) (db two_sends) alice_header ''user_b1''
     = get_messages (toy_env ''q'' 11) (db two_sends) bob_header ''user_a1''"
proof -
  have o: "\<not> db_err (toy_env ''r'' 9) 0" "\<not> db_err (toy_env ''q'' 11) 0"
    by (simp_all add: toy_db_ok)
  from history_both_directions_by_timestamp [OF header_alice header_bob o, of "db two_sends"]
  show ?thesis by (auto simp: alice_claims_def)
qed

text \<open>
  Claim C5 as stated fails. Alice sends to Bob and Bob sends to Alice within the same
  second; the generated id of the first message is greater than that of the second. The
  history lists them in the order of insertion, which is not ascending in
  (timestamp, id).
\<close>

theorem history_order_counterexample:
  "messages (db two_sends) = [msg_first, msg_second]
   \<and> get_messages (toy_env ''r'' 1700000009) (db two_sends) alice_header ''user_b1''
       = (200, MessagesBody [msg_first, msg_second])
   \<and> m_timestamp msg_first = m_timestamp msg_second
   \<and> m_id msg_second < m_id msg_first
   \<and> \<not> sorted [(m_timestamp msg_first, m_id msg_first), (m_timestamp msg_second, m_id msg_second)]"
  by (simp add: get_messages_def header_alice toy_db_ok select_messages_def two_sends_db
        alice_claims_def)
     (simp add: msg_first_def msg_second_def)

section \<open>Connection registry: disconnect\<close>

text \<open>
  Claim C6, as the code has it. The disconnect handler of a socket removes the registry
  entry of the socket's principal whatever handle is registered there, and touches nothing
  else: afterwards the principal has no entry, every other principal has the entry it had,
  and the store is unchanged.
\<close>

theorem disconnect_removes_unconditionally:
  "connectedUsers (on_disconnect st sock) p
     = (if p = userId sock then None else connectedUsers st p)
   \<and> db (on_disconnect st sock) = db st"
  by (simp add: on_disconnect_def)

theorem disconnect_removes_unconditionally_witness:
  "connectedUsers (on_disconnect (on_connection initial_server sockA1) sockA1) ''user_a1'' = None
   \<and> connectedUsers (on_disconnect (on_connection initial_server sockB) sockA1) ''user_b1'' = Some 3"
  using disconnect_removes_unconditionally [of "on_connection initial_server sockA1" sockA1 "''user_a1''"]
    disconnect_removes_unconditionally [of "on_connection initial_server sockB" sockA1 "''user_b1''"]
  by (simp add: sockA1_def sockB_def on_connection_def)

text \<open>
  Claim C6 as stated fails. Alice connects on socket 1 and then on socket 2, which
  replaces socket 1 in the registry. The disconnect of the stale socket 1 then removes
  the entry that holds socket 2.
\<close>

theorem stale_disconnect_counterexample:
  "connectedUsers (on_connection (on_connection initial_server sockA1) sockA2) ''user_a1'' = Some 2
   \<and> s_handle sockA1 = 1
   \<and> connectedUsers
       (on_disconnect (on_connection (on_connection initial_server sockA1) sockA2) sockA1)
       ''user_a1'' = None"
  by (simp add: on_connection_def on_disconnect_def initial_server_def sockA1_def sockA2_def)

section \<open>Message relay: persistence before delivery\<close>

text \<open>
  Claim C7. In the run of one \<^verbatim>\<open>send_message\<close> event the message is persisted first.
  When the store accepts the row (it is available, recipient and ciphertext are given, the
  generated id is unused), the store afterwards is the store before with exactly that row
  appended to \<^verbatim>\<open>messages\<close>, whether the recipient is connected or not; the registry is
  unchanged; the effects are the completed \<^verbatim>\<open>INSERT\<close> alone for a recipient without a
  live connection, and the \<^verbatim>\<open>INSERT\<close> followed by one push on the recipient's socket
  otherwise. When the \<^verbatim>\<open>INSERT\<close> fails, the server is unchanged and the only effect is a
  line on the error console: nothing is pushed and nothing at all is emitted on a socket,
  the sender's included. So every push comes after the completed \<^verbatim>\<open>INSERT\<close> of the
  same message.
\<close>

theorem push_only_after_persist:
  assumes "on_send_message e st sock data = (st', tr)"
  shows "(\<forall>r c. \<not> db_err e 0 \<and> recipientId data = Some r \<and> encryptedMessage data = Some c
             \<and> ''msg_'' @ random_id e \<notin> set (map m_id (messages (db st))) \<longrightarrow>
            db st' = (db st)\<lparr>messages := messages (db st) @
                       [\<lparr>m_id = ''msg_'' @ random_id e, m_sender_id = userId sock,
                         m_recipient_id = r, m_encrypted_message = json_stringify e c,
                         m_plain_text = plainText data, m_timestamp = current_timestamp e\<rparr>]\<rparr>
          \<and> connectedUsers st' = connectedUsers st
          \<and> (connectedUsers st r = None \<longrightarrow> tr = [DbInsert (''msg_'' @ random_id e)])
          \<and> (\<forall>h. connectedUsers st r = Some h \<longrightarrow>
                tr = [DbInsert (''msg_'' @ random_id e),
                      SocketEmit h \<lparr>ev_id = ''msg_'' @ random_id e, ev_senderId = userId sock,
                        ev_encryptedMessage = Some c, ev_timestamp = iso_now e\<rparr>]))
       \<and> (db_err e 0 \<or> recipientId data = None \<or> encryptedMessage data = None
             \<or> ''msg_'' @ random_id e \<in> set (map m_id (messages (db st))) \<longrightarrow>
            st' = st \<and> tr = [ConsoleError])
       \<and> (\<forall>i h ev. i < length tr \<and> tr ! i = SocketEmit h ev \<longrightarrow>
            (\<exists>j<i. tr ! j = DbInsert (ev_id ev))
          \<and> (\<exists>m\<in>set (messages (db st')). m_id m = ev_id ev \<and> m_sender_id m = userId sock)
          \<and> insert_message (db_err e 0) (db st) (''msg_'' @ random_id e) (userId sock)
               (recipientId data) (map_option (json_stringify e) (encryptedMessage data))
               (plainText data) (current_timestamp e) = Inr (db st'))
       \<and> (\<forall>err. insert_message (db_err e 0) (db st) (''msg_'' @ random_id e) (userId sock)
               (recipientId data) (map_option (json_stringify e) (encryptedMessage data))
               (plainText data) (current_timestamp e) = Inl err \<longrightarrow>
            st' = st \<and> tr = [ConsoleError] \<and> (\<forall>h ev. SocketEmit h ev \<notin> set tr))"
proof (intro conjI)
  show "\<forall>r c. \<not> db_err e 0 \<and> recipientId data = Some r \<and> encryptedMessage data = Some c
             \<and> ''msg_'' @ random_id e \<notin> set (map m_id (messages (db st))) \<longrightarrow>
            db st' = (db st)\<lparr>messages := messages (db st) @
                       [\<lparr>m_id = ''msg_'' @ random_id e, m_sender_id = userId sock,
                         m_recipient_id = r, m_encrypted_message = json_stringify e c,
                         m_plain_text = plainText data, m_timestamp = current_timestamp e\<rparr>]\<rparr>
          \<and> connectedUsers st' = connectedUsers st
          \<and> (connectedUsers st r = None \<longrightarrow> tr = [DbInsert (''msg_'' @ random_id e)])
          \<and> (\<forall>h. connectedUsers st r = Some h \<longrightarrow>
                tr = [DbInsert (''msg_'' @ random_id e),
                      SocketEmit h \<lparr>ev_id = ''msg_'' @ random_id e, ev_senderId = userId sock,
                        ev_encryptedMessage = Some c, ev_timestamp = iso_now e\<rparr>])"
    using assms
    by (auto simp: on_send_message_def insert_message_def Let_def split: option.splits)
next
  show "db_err e 0 \<or> recipientId data = None \<or> encryptedMessage data = None
             \<or> ''msg_'' @ random_id e \<in> set (map m_id (messages (db st))) \<longrightarrow>
            st' = st \<and> tr = [ConsoleError]"
  proof
    assume "db_err e 0 \<or> recipientId data = None \<or> encryptedMessage data = None
             \<or> ''msg_'' @ random_id e \<in> set (map m_id (messages (db st)))"
    then have pre: "db_err e 0 \<or> recipientId data = None
             \<or> map_option (json_stringify e) (encryptedMessage data) = None
             \<or> ''msg_'' @ random_id e \<in> set (map m_id (messages (db st)))"
      by auto
    from insert_message_fails [OF pre]
    obtain err where "insert_message (db_err e 0) (db st) (''msg_'' @ random_id e) (userId sock)
               (recipientId data) (map_option (json_stringify e) (encryptedMessage data))
               (plainText data) (current_timestamp e) = Inl err"
      by blast
    with assms show "st' = st \<and> tr = [ConsoleError]"
      by (auto simp: on_send_message_def Let_def)
  qed
next
  show "\<forall>i h ev. i < length tr \<and> tr ! i = SocketEmit h ev \<longrightarrow>
            (\<exists>j<i. tr ! j = DbInsert (ev_id ev))
          \<and> (\<exists>m\<in>set (messages (db st')). m_id m = ev_id ev \<and> m_sender_id m = userId sock)
          \<and> insert_message (db_err e 0) (db st) (''msg_'' @ random_id e) (userId sock)
               (recipientId data) (map_option (json_stringify e) (encryptedMessage data))
               (plainText data) (current_timestamp e) = Inr (db st')"
  proof (cases "insert_message (db_err e 0) (db st) (''msg_'' @ random_id e) (userId sock)
               (recipientId data) (map_option (json_stringify e) (encryptedMessage data))
               (plainText data) (current_timestamp e)")
    case (Inl err)
    with assms have "tr = [ConsoleError]"
      by (auto simp: on_send_message_def Let_def)
    then show ?thesis by (auto simp: nth_Cons')
  next
    case (Inr d')
    from insert_message_Inr [OF Inr]
    obtain m where m: "m \<in> set (messages d')" "m_id m = ''msg_'' @ random_id e"
      "m_sender_id m = userId sock"
      by blast
    from assms Inr have st': "db st' = d'"
      by (auto simp: on_send_message_def Let_def)
    from assms Inr have tr: "tr = [DbInsert (''msg_'' @ random_id e)]
        \<or> (\<exists>h. tr = [DbInsert (''msg_'' @ random_id e),
                      SocketEmit h \<lparr>ev_id = ''msg_'' @ random_id e, ev_senderId = userId sock,
                         ev_encryptedMessage = encryptedMessage data, ev_timestamp = iso_now e\<rparr>])"
      by (auto simp: on_send_message_def Let_def split: option.splits)
    have "\<And>i h ev. i < length tr \<Longrightarrow> tr ! i = SocketEmit h ev \<Longrightarrow>
            ev_id ev = ''msg_'' @ random_id e \<and> 0 < i \<and> tr ! 0 = DbInsert (''msg_'' @ random_id e)"
      using tr by (auto simp: nth_Cons' split: if_splits)
    with m st' Inr show ?thesis
      by fastforce
  qed
next
  show "\<forall>err. insert_message (db_err e 0) (db st) (''msg_'' @ random_id e) (userId sock)
               (recipientId data) (map_option (json_stringify e) (encryptedMessage data))
               (plainText data) (current_timestamp e) = Inl err \<longrightarrow>
            st' = st \<and> tr = [ConsoleError] \<and> (\<forall>h ev. SocketEmit h ev \<notin> set tr)"
    using assms by (auto simp: on_send_message_def Let_def)
qed


theorem push_only_after_persist_witness:
  "db (fst (on_send_message (toy_env ''m1'' 5) initial_server sockA1
        \<lparr>recipientId = Some ''user_b1'', encryptedMessage = Some (JStr ''c1''), plainText = Some ''hi''\<rparr>))
     = empty_database\<lparr>messages :=
            [\<lparr>m_id = ''msg_m1'', m_sender_id = ''user_a1'', m_recipient_id = ''user_b1'',
              m_encrypted_message = ''c1'', m_plain_text = Some ''hi'', m_timestamp = 5\<rparr>]\<rparr>
   \<and> snd (on_send_message (toy_env ''m1'' 5) initial_server sockA1
        \<lparr>recipientId = Some ''user_b1'', encryptedMessage = Some (JStr ''c1''), plainText = Some ''hi''\<rparr>)
     = [DbInsert ''msg_m1'']
   \<and> snd (on_send_message (toy_env ''m1'' 5) (on_connection initial_server sockB) sockA1
        \<lparr>recipientId = Some ''user_b1'', encryptedMessage = Some (JStr ''c1''), plainText = Some ''hi''\<rparr>)
     = [DbInsert ''msg_m1'',
        SocketEmit 3 \<lparr>ev_id = ''msg_m1'', ev_senderId = ''user_a1'',
                      ev_encryptedMessage = Some (JStr ''c1''),
                      ev_timestamp = ''2024-01-01T00:00:00.000Z''\<rparr>]
   \<and> on_send_message (toy_env ''m1'' 5) (on_connection initial_server sockB) sockA1
        \<lparr>recipientId = Some ''user_b1'', encryptedMessage = None, plainText = Some ''hi''\<rparr>
     = (on_connection initial_server sockB, [ConsoleError])"
proof -
  let ?e = "toy_env ''m1'' 5"
  let ?on = "on_connection initial_server sockB"
  let ?ok = "\<lparr>recipientId = Some ''user_b1'', encryptedMessage = Some (JStr ''c1''),
              plainText = Some ''hi''\<rparr>"
  let ?bad = "\<lparr>recipientId = Some ''user_b1'', encryptedMessage = None, plainText = Some ''hi''\<rparr>"
  obtain s1 t1 where r1: "on_send_message ?e initial_server sockA1 ?ok = (s1, t1)"
    by (cases "on_send_message ?e initial_server sockA1 ?ok") blast
  obtain s2 t2 where r2: "on_send_message ?e ?on sockA1 ?ok = (s2, t2)"
    by (cases "on_send_message ?e ?on sockA1 ?ok") blast
  obtain s3 t3 where r3: "on_send_message ?e ?on sockA1 ?bad = (s3, t3)"
    by (cases "on_send_message ?e ?on sockA1 ?bad") blast
  have c1: "\<not> db_err ?e 0 \<and> recipientId ?ok = Some ''user_b1''
      \<and> encryptedMessage ?ok = Some (JStr ''c1'')
      \<and> ''msg_'' @ random_id ?e \<notin> set (map m_id (messages (db initial_server)))"
    by (simp add: toy_env_def initial_server_def empty_database_def)
  have c2: "\<not> db_err ?e 0 \<and> recipientId ?ok = Some ''user_b1''
      \<and> encryptedMessage ?ok = Some (JStr ''c1'')
      \<and> ''msg_'' @ random_id ?e \<notin> set (map m_id (messages (db ?on)))"
    by (simp add: toy_env_def initial_server_def empty_database_def on_connection_def)
  have c3: "db_err ?e 0 \<or> recipientId ?bad = None \<or> encryptedMessage ?bad = None
      \<or> ''msg_'' @ random_id ?e \<in> set (map m_id (messages (db ?on)))"
    by simp
  have off: "connectedUsers initial_server ''user_b1'' = None"
    by (simp add: initial_server_def)
  have on: "connectedUsers ?on ''user_b1'' = Some 3"
    by (simp add: on_connection_def sockB_def)
  from push_only_after_persist [OF r1, THEN conjunct1, rule_format, OF c1] off
  have 1: "db s1 = empty_database\<lparr>messages :=
            [\<lparr>m_id = ''msg_m1'', m_sender_id = ''user_a1'', m_recipient_id = ''user_b1'',
              m_encrypted_message = ''c1'', m_plain_text = Some ''hi'', m_timestamp = 5\<rparr>]\<rparr>
          \<and> t1 = [DbInsert ''msg_m1'']"
    by (simp add: toy_env_def initial_server_def empty_database_def sockA1_def)
  from push_only_after_persist [OF r2, THEN conjunct1, rule_format, OF c2] on
  have 2: "t2 = [DbInsert ''msg_m1'',
        SocketEmit 3 \<lparr>ev_id = ''msg_m1'', ev_senderId = ''user_a1'',
                      ev_encryptedMessage = Some (JStr ''c1''),
                      ev_timestamp = ''2024-01-01T00:00:00.000Z''\<rparr>]"
    by (simp add: toy_env_def sockA1_def)
  from push_only_after_persist [OF r3, THEN conjunct2, THEN conjunct1, rule_format, OF c3]
  have 3: "s3 = ?on \<and> t3 = [ConsoleError]" .
  from 1 2 3 r1 r2 r3 show ?thesis
    by simp
qed

section \<open>Credentials: register, log in, verify\<close>

text \<open>
  Claim C8. For a handle of 3 to 30 characters that is not taken and a secret of at least 6
  characters, registration succeeds and creates a principal id; a login with the same pair
  on the store that registration left succeeds for the same id and handle; and verifying
  the token of the login, as the socket handshake does, gives that id. The surroundings
  are taken to work: the store answers, the generated id is not yet in use, the digest
  library accepts the secret against the digest it made, and the token library accepts
  the (non-empty) token it signed at login.
\<close>

theorem register_login_verify:
  assumes "3 \<le> length h" and "length h \<le> 30" and "6 \<le> length s"
    and "h \<notin> set (map u_username (users d))"
    and "''user_'' @ random_id e1 \<notin> set (map u_id (users d))"
    and "\<not> db_err e1 0" and "\<not> db_err e1 1" and "\<not> db_err e2 0"
    and "bcrypt_compare e2 s (bcrypt_hash e1 s)"
    and "jwt_sign e2 \<lparr>claim_id = ''user_'' @ random_id e1, claim_username = h\<rparr> \<noteq> []"
    and "jwt_verify e3 (jwt_sign e2 \<lparr>claim_id = ''user_'' @ random_id e1, claim_username = h\<rparr>)
           = Inr \<lparr>claim_id = ''user_'' @ random_id e1, claim_username = h\<rparr>"
  shows "\<exists>uid tok1 tok2 d'.
           register e1 d (Some h) (Some s)
             = ((200, AuthBody ''User created successfully'' tok1 uid h), d')
         \<and> uid \<in> set (map u_id (users d')) \<and> uid \<notin> set (map u_id (users d))
         \<and> login e2 d' (Some h) (Some s) = (200, AuthBody ''Login successful'' tok2 uid h)
         \<and> map_sum id claim_id (jwt_verify e3 tok2) = Inr uid
         \<and> map_sum id userId (io_use e3 n (Some tok2)) = Inr uid"
proof -
  let ?uid = "''user_'' @ random_id e1"
  let ?row = "\<lparr>u_id = ?uid, u_username = h, u_password_hash = bcrypt_hash e1 s,
                u_registration_id = None, u_identity_key = None\<rparr>"
  let ?d' = "d\<lparr>users := users d @ [?row]\<rparr>"
  let ?tok = "jwt_sign e2 \<lparr>claim_id = ?uid, claim_username = h\<rparr>"
  from assms(1,3) have ne: "h \<noteq> []" "s \<noteq> []"
    by auto
  from assms(4) have none: "select_user_by_username d h = None"
    by (auto simp: select_user_by_username_def find_None_iff)
  have ins: "insert_user (db_err e1 1) d ?row = Inr ?d'"
    using assms(4,5,7) by (simp add: insert_user_def)
  have reg: "register e1 d (Some h) (Some s)
      = ((200, AuthBody ''User created successfully''
                 (jwt_sign e1 \<lparr>claim_id = ?uid, claim_username = h\<rparr>) ?uid h), ?d')"
    using assms(1,2,3,6) ne none ins by (simp add: register_def Let_def)
  have "find (\<lambda>u. u_username u = h) (users d @ [?row]) = Some ?row"
    using assms(4) by (intro find_append_new) auto
  then have found: "select_user_by_username ?d' h = Some ?row"
    by (simp add: select_user_by_username_def)
  have log: "login e2 ?d' (Some h) (Some s) = (200, AuthBody ''Login successful'' ?tok ?uid h)"
    using ne found assms(8,9) by (simp add: login_def)
  have ver: "map_sum id claim_id (jwt_verify e3 ?tok) = Inr ?uid"
    using assms(11) by simp
  have sock: "map_sum id userId (io_use e3 n (Some ?tok)) = Inr ?uid"
    using assms(10,11) by (simp add: io_use_def)
  have mem: "?uid \<in> set (map u_id (users ?d'))"
    by simp
  from reg log ver sock mem assms(5) show ?thesis
    by blast
qed

theorem register_login_verify_witness:
  "\<exists>uid tok1 tok2 d'.
      register (toy_env ''a1'' 0) registered_store (Some ''alice'') (Some ''secret1'')
        = ((200, AuthBody ''User created successfully'' tok1 uid ''alice''), d')
    \<and> uid \<in> set (map u_id (users d')) \<and> uid \<notin> set (map u_id (users registered_store))
    \<and> login (toy_env ''r'' 1) d' (Some ''alice'') (Some ''secret1'')
        = (200, AuthBody ''Login successful'' tok2 uid ''alice'')
    \<and> map_sum id claim_id (jwt_verify (toy_env ''q'' 2) tok2) = Inr uid
    \<and> map_sum id userId (io_use (toy_env ''q'' 2) 4 (Some tok2)) = Inr uid"
  by (rule register_login_verify)
     (simp_all add: registered_store_eq toy_env_def toy_verify_def)

end
